theory Spec2Isabelle
  imports
    Complex_Main
    "HOL-Library.Multiset"
    "HOL-Library.Product_Lexorder"
    "HOL-Library.Char_ord"
    "HOL-Library.List_Lexorder"
begin

section \<open>Data model of \<^verbatim>\<open>temp2.py\<close>\<close>

text \<open>
  \<^verbatim>\<open>class Race\<close> copies twenty-two entries of a row into attributes. The six attributes
  that the derived-variable computation reads are typed: the identifiers, the season and
  the finishing-position code \<^verbatim>\<open>pla\<close> are strings, \<^verbatim>\<open>race_index\<close> is an integer, and
  \<^verbatim>\<open>date\<close> is a calendar date, represented by its day number (the code only compares
  dates and takes \<^verbatim>\<open>(curr_date - prev_date).days\<close>). The sixteen attributes that are only
  carried along have the opaque type \<open>'v\<close>. Rows with a missing date or index
  (\<^verbatim>\<open>None\<close>) are outside this type.
\<close>

record 'v Race =
  horse_id :: string
  race_index :: int
  date :: int
  season :: string
  racecourse :: 'v
  track :: 'v
  course :: 'v
  dist :: 'v
  g :: 'v
  race_class :: 'v
  dr :: 'v
  rtg :: 'v
  trainer :: 'v
  jockey :: string
  act_wt :: 'v
  declar_horse_wt :: 'v
  gear :: 'v
  pla :: string
  lbw :: 'v
  running_position :: 'v
  finish_time :: 'v
  win_odds :: 'v

text \<open>
  Floating-point attributes. Rounding is not modelled: a finite float is the real number
  it approximates. The two non-finite results that \<^verbatim>\<open>np.log1p\<close> and \<^verbatim>\<open>np.sqrt\<close> give
  (with a warning, not an exception) on negative arguments are kept apart.
\<close>

datatype pyfloat = Finite real | NaN | NegInf

text \<open>\<^verbatim>\<open>class RaceWithStats(Race)\<close>: the attributes of \<^verbatim>\<open>Race\<close> and the derived ones.\<close>

record 'v RaceWithStats = "'v Race" +
  num_races_run :: int
  num_races_top1 :: int
  num_races_top2 :: int
  num_races_top3 :: int
  percent_races_top1 :: pyfloat
  percent_races_top2 :: pyfloat
  percent_races_top3 :: pyfloat
  num_races_run_seasonal :: int
  days_since_last_run :: int
  days_since_last_run_log :: pyfloat
  days_since_last_run_sqrt :: pyfloat
  jokey_num_races_run :: int

text \<open>
  \<^verbatim>\<open>RaceWithStats.__init__\<close>: \<^verbatim>\<open>super().__init__(vars(original))\<close> copies every attribute
  of the original, then the derived attributes get their defaults.
\<close>

definition RaceWithStats_init :: "'v Race \<Rightarrow> 'v RaceWithStats" where
  "RaceWithStats_init original =
     \<lparr>horse_id = horse_id original, race_index = race_index original,
      date = date original, season = season original,
      racecourse = racecourse original, track = track original,
      course = course original, dist = dist original, g = g original,
      race_class = race_class original, dr = dr original, rtg = rtg original,
      trainer = trainer original, jockey = jockey original,
      act_wt = act_wt original, declar_horse_wt = declar_horse_wt original,
      gear = gear original, pla = pla original, lbw = lbw original,
      running_position = running_position original,
      finish_time = finish_time original, win_odds = win_odds original,
      num_races_run = 0, num_races_top1 = 0, num_races_top2 = 0,
      num_races_top3 = 0,
      percent_races_top1 = Finite 0, percent_races_top2 = Finite 0,
      percent_races_top3 = Finite 0,
      num_races_run_seasonal = 0,
      days_since_last_run = 0, days_since_last_run_log = Finite 0,
      days_since_last_run_sqrt = Finite 0,
      jokey_num_races_run = 0\<rparr>"

section \<open>Python and numpy primitives used by the creators\<close>

datatype error = ZeroDivisionError | IndexError

text \<open>\<^verbatim>\<open>a / b\<close> on two Python ints.\<close>

definition py_true_div :: "int \<Rightarrow> int \<Rightarrow> error + pyfloat" where
  "py_true_div a b =
     (if b = 0 then Inl ZeroDivisionError
      else Inr (Finite (real_of_int a / real_of_int b)))"

text \<open>\<^verbatim>\<open>prior_races[-1]\<close>.\<close>

definition last_item :: "'a list \<Rightarrow> error + 'a" where
  "last_item xs = (if xs = [] then Inl IndexError else Inr (last xs))"

definition np_log1p :: "int \<Rightarrow> pyfloat" where
  "np_log1p x =
     (if x < - 1 then NaN
      else if x = - 1 then NegInf
      else Finite (ln (1 + real_of_int x)))"

definition np_sqrt :: "int \<Rightarrow> pyfloat" where
  "np_sqrt x = (if x < 0 then NaN else Finite (sqrt (real_of_int x)))"

text \<open>\<^verbatim>\<open>collections.Counter(iterable)\<close>, read with \<^verbatim>\<open>counts[key]\<close>: 0 for a missing key.\<close>

definition Counter :: "'a list \<Rightarrow> 'a \<Rightarrow> int" where
  "Counter xs k = int (count_list xs k)"

text \<open>\<^verbatim>\<open>d.get(key, default)\<close> and \<^verbatim>\<open>d[key].append(x)\<close> on a \<^verbatim>\<open>defaultdict(list)\<close>.\<close>

definition dict_get :: "('k \<rightharpoonup> 'a list) \<Rightarrow> 'k \<Rightarrow> 'a list \<Rightarrow> 'a list" where
  "dict_get d k dflt = (case d k of None \<Rightarrow> dflt | Some v \<Rightarrow> v)"

definition defaultdict_append :: "('k \<rightharpoonup> 'a list) \<Rightarrow> 'k \<Rightarrow> 'a \<Rightarrow> ('k \<rightharpoonup> 'a list)" where
  "defaultdict_append d k x = d(k \<mapsto> (case d k of None \<Rightarrow> [] | Some v \<Rightarrow> v) @ [x])"

section \<open>The variable creators of \<^verbatim>\<open>HorseRacingVariableCreator\<close>\<close>

type_synonym 'v creator = "'v RaceWithStats \<Rightarrow> 'v Race list \<Rightarrow> error + 'v RaceWithStats"

text \<open>
  \<^verbatim>\<open>_compute_num_races_run\<close>. The four counts are assigned before the first division,
  which raises on an empty history.
\<close>

definition compute_num_races_run :: "'v creator" where
  "compute_num_races_run race_stats prior_races =
     (let counts = Counter (map pla (filter (\<lambda>race. pla race \<in> {''01'', ''02'', ''03''}) prior_races));
          num_races_run' = int (length prior_races);
          race_stats = race_stats
            \<lparr>num_races_run := num_races_run',
             num_races_top1 := counts ''01'',
             num_races_top2 := counts ''01'' + counts ''02'',
             num_races_top3 := counts ''01'' + counts ''02'' + counts ''03''\<rparr>
      in case py_true_div (counts ''01'') num_races_run' of
           Inl e \<Rightarrow> Inl e
         | Inr p1 \<Rightarrow>
        (case py_true_div (counts ''01'' + counts ''02'') num_races_run' of
           Inl e \<Rightarrow> Inl e
         | Inr p2 \<Rightarrow>
        (case py_true_div (counts ''01'' + counts ''02'' + counts ''03'') num_races_run' of
           Inl e \<Rightarrow> Inl e
         | Inr p3 \<Rightarrow>
             Inr (race_stats
               \<lparr>percent_races_top1 := p1,
                percent_races_top2 := p2,
                percent_races_top3 := p3\<rparr>))))"

text \<open>\<^verbatim>\<open>_compute_num_races_run_seasonal\<close>: \<^verbatim>\<open>sum(1 for race in prior_races if ...)\<close>.\<close>

definition compute_num_races_run_seasonal :: "'v creator" where
  "compute_num_races_run_seasonal race_stats prior_races =
     Inr (race_stats
       \<lparr>num_races_run_seasonal :=
          sum_list (map (\<lambda>race. 1) (filter (\<lambda>race. season race = season race_stats) prior_races))\<rparr>)"

text \<open>\<^verbatim>\<open>_compute_days_since_last_run\<close>.\<close>

definition compute_days_since_last_run :: "'v creator" where
  "compute_days_since_last_run race_stats prior_races =
     (case last_item prior_races of
        Inl e \<Rightarrow> Inl e
      | Inr prev \<Rightarrow>
          (let prev_date = date prev;
               curr_date = date race_stats;
               days_since_last_run' = curr_date - prev_date
           in Inr (race_stats
                \<lparr>days_since_last_run := days_since_last_run',
                 days_since_last_run_log := np_log1p days_since_last_run',
                 days_since_last_run_sqrt := np_sqrt days_since_last_run'\<rparr>)))"

text \<open>\<^verbatim>\<open>_compute_jockey_num_races_run\<close>.\<close>

definition compute_jockey_num_races_run :: "'v creator" where
  "compute_jockey_num_races_run race_stats prior_races =
     Inr (race_stats
       \<lparr>jokey_num_races_run :=
          sum_list (map (\<lambda>race. 1) (filter (\<lambda>race. season race = season race_stats) prior_races))\<rparr>)"

text \<open>The two registries set up by \<^verbatim>\<open>__init__\<close>.\<close>

definition variable_creators :: "'v creator list" where
  "variable_creators =
     [compute_num_races_run, compute_num_races_run_seasonal, compute_days_since_last_run]"

definition jockey_variable_creators :: "'v creator list" where
  "jockey_variable_creators = [compute_jockey_num_races_run]"

section \<open>The driver \<^verbatim>\<open>compute_derived_variables\<close>\<close>

text \<open>The local variables of the driver that the loop updates.\<close>

record 'v driver_state =
  horse_races_map :: "string \<rightharpoonup> 'v Race list"
  jockey_races_map :: "string \<rightharpoonup> 'v Race list"
  race_group_map :: "(int \<times> int) \<rightharpoonup> 'v RaceWithStats list"
  enhanced_races :: "'v RaceWithStats list"

definition init_state :: "'v driver_state" where
  "init_state =
     \<lparr>horse_races_map = Map.empty, jockey_races_map = Map.empty,
      race_group_map = Map.empty, enhanced_races = []\<rparr>"

text \<open>
  One of the two inner loops:
  \<^verbatim>\<open>for func in creators: prior_races = d.get(key, []); if prior_races: func(race_stats, prior_races)\<close>.
  The history is looked up again for every creator; an exception of a creator leaves
  the loop.
\<close>

fun run_creators ::
  "'v creator list \<Rightarrow> (string \<rightharpoonup> 'v Race list) \<Rightarrow> ('v RaceWithStats \<Rightarrow> string)
    \<Rightarrow> 'v RaceWithStats \<Rightarrow> error + 'v RaceWithStats" where
  "run_creators [] d key race_stats = Inr race_stats"
| "run_creators (func # funcs) d key race_stats =
     (let prior_races = dict_get d (key race_stats) [] in
      if prior_races \<noteq> [] then
        (case func race_stats prior_races of
           Inl e \<Rightarrow> Inl e
         | Inr race_stats' \<Rightarrow> run_creators funcs d key race_stats')
      else run_creators funcs d key race_stats)"

text \<open>Lines 176 to 186 of the loop body: the enriched record of one race.\<close>

definition enrich_race ::
  "(string \<rightharpoonup> 'v Race list) \<Rightarrow> (string \<rightharpoonup> 'v Race list) \<Rightarrow> 'v Race
    \<Rightarrow> error + 'v RaceWithStats" where
  "enrich_race horse_map jockey_map race =
     (case run_creators variable_creators horse_map horse_id (RaceWithStats_init race) of
        Inl e \<Rightarrow> Inl e
      | Inr race_stats \<Rightarrow> run_creators jockey_variable_creators jockey_map jockey race_stats)"

text \<open>
  The whole loop body: enrichment, then the three appends of lines 188 to 190.
  Nothing is appended to \<^verbatim>\<open>enhanced_races\<close>.
\<close>

definition loop_body :: "'v driver_state \<Rightarrow> 'v Race \<Rightarrow> error + 'v driver_state" where
  "loop_body st race =
     (case enrich_race (horse_races_map st) (jockey_races_map st) race of
        Inl e \<Rightarrow> Inl e
      | Inr race_stats \<Rightarrow>
          Inr (st
            \<lparr>race_group_map :=
               defaultdict_append (race_group_map st) (date race_stats, race_index race_stats) race_stats,
             horse_races_map := defaultdict_append (horse_races_map st) (horse_id race) race,
             jockey_races_map := defaultdict_append (jockey_races_map st) (jockey race) race\<rparr>))"

fun run_loop :: "'v driver_state \<Rightarrow> 'v Race list \<Rightarrow> error + 'v driver_state" where
  "run_loop st [] = Inr st"
| "run_loop st (race # races) =
     (case loop_body st race of
        Inl e \<Rightarrow> Inl e
      | Inr st' \<Rightarrow> run_loop st' races)"

text \<open>
  \<^verbatim>\<open>all_races.sort(key=lambda r: (r.date, r.race_index))\<close>: a stable sort on the
  lexicographically ordered key.
\<close>

definition sort_races :: "'v Race list \<Rightarrow> 'v Race list" where
  "sort_races all_races = sort_key (\<lambda>r. (date r, race_index r)) all_races"

text \<open>
  The driver. The first component is the caller's list after the call (it is sorted in
  place), the second is what the call returns or raises.
\<close>

definition compute_derived_variables ::
  "'v Race list \<Rightarrow> 'v Race list \<times> (error + 'v RaceWithStats list)" where
  "compute_derived_variables all_races =
     (let all_races' = sort_races all_races in
      (all_races',
       case run_loop init_state all_races' of
         Inl e \<Rightarrow> Inl e
       | Inr st \<Rightarrow> Inr (enhanced_races st)))"

section \<open>Entity histories as the specification describes them\<close>

text \<open>
  Not part of the program: the specification's entity history of a record, read off the
  input list alone. For an identifier (\<open>horse_id\<close> or \<open>jockey\<close>) it is the records of
  the input with the same identifier and a strictly earlier \<open>(date, race_index)\<close>, in
  chronological order. It is compared below with the histories the loop builds.
\<close>

definition earlier_runs :: "('v Race \<Rightarrow> string) \<Rightarrow> 'v Race list \<Rightarrow> 'v Race \<Rightarrow> 'v Race list" where
  "earlier_runs ident all_races race =
     sort_key (\<lambda>r. (date r, race_index r))
       (filter (\<lambda>r. ident r = ident race \<and>
                     (date r, race_index r) < (date race, race_index race)) all_races)"

text \<open>The enriched record of a race when the two histories are taken from the input list.\<close>

definition enrich_from_input :: "'v Race list \<Rightarrow> 'v Race \<Rightarrow> error + 'v RaceWithStats" where
  "enrich_from_input all_races race =
     enrich_race
       [horse_id race \<mapsto> earlier_runs horse_id all_races race]
       [jockey race \<mapsto> earlier_runs jockey all_races race]
       race"

section \<open>Example records\<close>

text \<open>
  Concrete rows for the worked examples. The carried attributes are empty.
\<close>

definition ex_race :: "string \<Rightarrow> int \<Rightarrow> int \<Rightarrow> string \<Rightarrow> string \<Rightarrow> string \<Rightarrow> unit Race" where
  "ex_race h i d s j p =
     \<lparr>horse_id = h, race_index = i, date = d, season = s,
      racecourse = (), track = (), course = (), dist = (), g = (),
      race_class = (), dr = (), rtg = (), trainer = (), jockey = j,
      act_wt = (), declar_horse_wt = (), gear = (), pla = p, lbw = (),
      running_position = (), finish_time = (), win_odds = ()\<rparr>"

abbreviation "ra \<equiv> ex_race ''H1'' 1 3 ''24/25'' ''J1'' ''01''"
abbreviation "rb \<equiv> ex_race ''H1'' 2 10 ''24/25'' ''J2'' ''03''"
abbreviation "rc \<equiv> ex_race ''H1'' 3 17 ''24/25'' ''J1'' ''05''"
abbreviation "rd \<equiv> ex_race ''H1'' 4 24 ''24/25'' ''J1'' ''WV''"
abbreviation "r0 \<equiv> ex_race ''H2'' 7 1 ''23/24'' ''J1'' ''02''"
abbreviation "rx \<equiv> ex_race ''H3'' 2 10 ''24/25'' ''J3'' ''02''"
abbreviation "rx2 \<equiv> ex_race ''H3'' 2 10 ''24/25'' ''J2'' ''02''"
abbreviation "rb2 \<equiv> ex_race ''H1'' 2 10 ''24/25'' ''J4'' ''01''"

section \<open>Facts about the creators\<close>

lemma Counter_filter_eq:
  "k \<in> S \<Longrightarrow> Counter (map f (filter (\<lambda>x. f x \<in> S) xs)) k = int (length (filter (\<lambda>x. f x = k) xs))"
  unfolding Counter_def by (induction xs) auto

lemma sum_ones_length: "sum_list (map (\<lambda>x. (1::int)) xs) = int (length xs)"
  by (induction xs) auto

lemma compute_num_races_run_nonempty:
  assumes "prior_races \<noteq> []"
  shows "compute_num_races_run rs prior_races =
     Inr (rs\<lparr>num_races_run := int (length prior_races),
             num_races_top1 := int (length (filter (\<lambda>r. pla r = ''01'') prior_races)),
             num_races_top2 := int (length (filter (\<lambda>r. pla r = ''01'') prior_races))
                             + int (length (filter (\<lambda>r. pla r = ''02'') prior_races)),
             num_races_top3 := int (length (filter (\<lambda>r. pla r = ''01'') prior_races))
                             + int (length (filter (\<lambda>r. pla r = ''02'') prior_races))
                             + int (length (filter (\<lambda>r. pla r = ''03'') prior_races)),
             percent_races_top1 := Finite (real (length (filter (\<lambda>r. pla r = ''01'') prior_races)) / real (length prior_races)),
             percent_races_top2 := Finite (real (length (filter (\<lambda>r. pla r = ''01'') prior_races) + length (filter (\<lambda>r. pla r = ''02'') prior_races)) / real (length prior_races)),
             percent_races_top3 := Finite (real (length (filter (\<lambda>r. pla r = ''01'') prior_races) + length (filter (\<lambda>r. pla r = ''02'') prior_races) + length (filter (\<lambda>r. pla r = ''03'') prior_races)) / real (length prior_races))\<rparr>)"
proof -
  let ?C = "Counter (map pla (filter (\<lambda>race. pla race \<in> {''01'', ''02'', ''03''}) prior_races))"
  have c1: "?C ''01'' = int (length (filter (\<lambda>r. pla r = ''01'') prior_races))"
    by (rule Counter_filter_eq) simp
  have c2: "?C ''02'' = int (length (filter (\<lambda>r. pla r = ''02'') prior_races))"
    by (rule Counter_filter_eq) simp
  have c3: "?C ''03'' = int (length (filter (\<lambda>r. pla r = ''03'') prior_races))"
    by (rule Counter_filter_eq) simp
  show ?thesis
    unfolding compute_num_races_run_def Let_def c1 c2 c3
    using assms by (simp add: py_true_div_def)
qed

lemma compute_num_races_run_empty:
  "compute_num_races_run rs [] = Inl ZeroDivisionError"
  by (simp add: compute_num_races_run_def py_true_div_def Let_def)

lemma compute_days_nonempty:
  "prior_races \<noteq> [] \<Longrightarrow> compute_days_since_last_run rs prior_races =
     Inr (rs\<lparr>days_since_last_run := date rs - date (last prior_races),
             days_since_last_run_log := np_log1p (date rs - date (last prior_races)),
             days_since_last_run_sqrt := np_sqrt (date rs - date (last prior_races))\<rparr>)"
  by (simp add: compute_days_since_last_run_def last_item_def Let_def)


lemma run_creators_horse_empty:
  "dict_get d (horse_id rs) [] = [] \<Longrightarrow> run_creators variable_creators d horse_id rs = Inr rs"
  by (simp add: variable_creators_def)

lemma run_creators_horse_nonempty:
  assumes "dict_get d (horse_id rs) [] = H" "H \<noteq> []"
  shows "run_creators variable_creators d horse_id rs =
    Inr (rs\<lparr>num_races_run := int (length H),
             num_races_top1 := int (length (filter (\<lambda>r. pla r = ''01'') H)),
             num_races_top2 := int (length (filter (\<lambda>r. pla r = ''01'') H))
                             + int (length (filter (\<lambda>r. pla r = ''02'') H)),
             num_races_top3 := int (length (filter (\<lambda>r. pla r = ''01'') H))
                             + int (length (filter (\<lambda>r. pla r = ''02'') H))
                             + int (length (filter (\<lambda>r. pla r = ''03'') H)),
             percent_races_top1 := Finite (real (length (filter (\<lambda>r. pla r = ''01'') H)) / real (length H)),
             percent_races_top2 := Finite (real (length (filter (\<lambda>r. pla r = ''01'') H) + length (filter (\<lambda>r. pla r = ''02'') H)) / real (length H)),
             percent_races_top3 := Finite (real (length (filter (\<lambda>r. pla r = ''01'') H) + length (filter (\<lambda>r. pla r = ''02'') H) + length (filter (\<lambda>r. pla r = ''03'') H)) / real (length H)),
             num_races_run_seasonal := int (length (filter (\<lambda>r. season r = season rs) H)),
             days_since_last_run := date rs - date (last H),
             days_since_last_run_log := np_log1p (date rs - date (last H)),
             days_since_last_run_sqrt := np_sqrt (date rs - date (last H))\<rparr>)"
  using assms
  by (simp add: variable_creators_def compute_num_races_run_nonempty compute_days_nonempty
      compute_num_races_run_seasonal_def sum_ones_length)

lemma run_creators_jockey:
  "run_creators jockey_variable_creators d jockey rs =
     Inr (if dict_get d (jockey rs) [] = [] then rs
          else rs\<lparr>jokey_num_races_run :=
                 int (length (filter (\<lambda>r. season r = season rs) (dict_get d (jockey rs) [])))\<rparr>)"
  by (simp add: jockey_variable_creators_def compute_jockey_num_races_run_def sum_ones_length)

lemma run_creators_horse_total:
  "\<exists>rs'. run_creators variable_creators d horse_id rs = Inr rs'"
proof (cases "dict_get d (horse_id rs) [] = []")
  case True
  then show ?thesis by (simp add: run_creators_horse_empty)
next
  case False
  then show ?thesis using run_creators_horse_nonempty [OF refl False] by blast
qed

section \<open>Facts about the enrichment of one race\<close>

lemma enrich_race_total: "\<exists>rs. enrich_race hm jm race = Inr rs"
proof -
  obtain rs' where "run_creators variable_creators hm horse_id (RaceWithStats_init race) = Inr rs'"
    using run_creators_horse_total by blast
  then show ?thesis by (simp add: enrich_race_def run_creators_jockey)
qed

lemma enrich_race_key_conj:
  assumes "enrich_race hm jm race = Inr rs"
  shows "horse_id rs = horse_id race \<and> jockey rs = jockey race \<and>
    date rs = date race \<and> race_index rs = race_index race \<and>
    season rs = season race \<and> pla rs = pla race"
proof (cases "dict_get hm (horse_id race) [] = []")
  case True
  then have "run_creators variable_creators hm horse_id (RaceWithStats_init race) = Inr (RaceWithStats_init race)"
    by (simp add: run_creators_horse_empty RaceWithStats_init_def)
  with assms show ?thesis
    by (auto simp add: enrich_race_def run_creators_jockey RaceWithStats_init_def split: if_splits)
next
  case False
  have h: "dict_get hm (horse_id (RaceWithStats_init race)) [] = dict_get hm (horse_id race) []"
    by (simp add: RaceWithStats_init_def)
  show ?thesis
    using assms run_creators_horse_nonempty [OF h False]
    by (auto simp add: enrich_race_def run_creators_jockey RaceWithStats_init_def split: if_splits)
qed

lemmas enrich_race_key = enrich_race_key_conj [THEN conjunct1]
  enrich_race_key_conj [THEN conjunct2, THEN conjunct1]
  enrich_race_key_conj [THEN conjunct2, THEN conjunct2, THEN conjunct1]
  enrich_race_key_conj [THEN conjunct2, THEN conjunct2, THEN conjunct2, THEN conjunct1]
  enrich_race_key_conj [THEN conjunct2, THEN conjunct2, THEN conjunct2, THEN conjunct2, THEN conjunct1]
  enrich_race_key_conj [THEN conjunct2, THEN conjunct2, THEN conjunct2, THEN conjunct2, THEN conjunct2]

lemma enrich_race_horse_nonempty:
  assumes "enrich_race hm jm race = Inr rs"
    and "dict_get hm (horse_id race) [] = H" and "H \<noteq> []"
  shows "num_races_run rs = int (length H)"
    and "num_races_top1 rs = int (length (filter (\<lambda>r. pla r = ''01'') H))"
    and "num_races_top2 rs = int (length (filter (\<lambda>r. pla r = ''01'') H))
                             + int (length (filter (\<lambda>r. pla r = ''02'') H))"
    and "num_races_top3 rs = int (length (filter (\<lambda>r. pla r = ''01'') H))
                             + int (length (filter (\<lambda>r. pla r = ''02'') H))
                             + int (length (filter (\<lambda>r. pla r = ''03'') H))"
    and "percent_races_top1 rs = Finite (real (length (filter (\<lambda>r. pla r = ''01'') H)) / real (length H))"
    and "percent_races_top2 rs = Finite (real (length (filter (\<lambda>r. pla r = ''01'') H) + length (filter (\<lambda>r. pla r = ''02'') H)) / real (length H))"
    and "percent_races_top3 rs = Finite (real (length (filter (\<lambda>r. pla r = ''01'') H) + length (filter (\<lambda>r. pla r = ''02'') H) + length (filter (\<lambda>r. pla r = ''03'') H)) / real (length H))"
    and "num_races_run_seasonal rs = int (length (filter (\<lambda>r. season r = season race) H))"
    and "days_since_last_run rs = date race - date (last H)"
    and "days_since_last_run_log rs = np_log1p (date race - date (last H))"
    and "days_since_last_run_sqrt rs = np_sqrt (date race - date (last H))"
proof -
  have h: "dict_get hm (horse_id (RaceWithStats_init race)) [] = H"
    using assms(2) by (simp add: RaceWithStats_init_def)
  note eq = run_creators_horse_nonempty [OF h assms(3)]
  have d: "date (RaceWithStats_init race) = date race" "season (RaceWithStats_init race) = season race"
    by (simp_all add: RaceWithStats_init_def)
  from assms(1) show "num_races_run rs = int (length H)"
    by (auto simp add: enrich_race_def eq run_creators_jockey split: if_splits)
  from assms(1) show "num_races_top1 rs = int (length (filter (\<lambda>r. pla r = ''01'') H))"
    by (auto simp add: enrich_race_def eq run_creators_jockey split: if_splits)
  from assms(1) show "num_races_top2 rs = int (length (filter (\<lambda>r. pla r = ''01'') H))
                             + int (length (filter (\<lambda>r. pla r = ''02'') H))"
    by (auto simp add: enrich_race_def eq run_creators_jockey split: if_splits)
  from assms(1) show "num_races_top3 rs = int (length (filter (\<lambda>r. pla r = ''01'') H))
                             + int (length (filter (\<lambda>r. pla r = ''02'') H))
                             + int (length (filter (\<lambda>r. pla r = ''03'') H))"
    by (auto simp add: enrich_race_def eq run_creators_jockey split: if_splits)
  from assms(1) show "percent_races_top1 rs = Finite (real (length (filter (\<lambda>r. pla r = ''01'') H)) / real (length H))"
    by (auto simp add: enrich_race_def eq run_creators_jockey split: if_splits)
  from assms(1) show "percent_races_top2 rs = Finite (real (length (filter (\<lambda>r. pla r = ''01'') H) + length (filter (\<lambda>r. pla r = ''02'') H)) / real (length H))"
    by (auto simp add: enrich_race_def eq run_creators_jockey split: if_splits)
  from assms(1) show "percent_races_top3 rs = Finite (real (length (filter (\<lambda>r. pla r = ''01'') H) + length (filter (\<lambda>r. pla r = ''02'') H) + length (filter (\<lambda>r. pla r = ''03'') H)) / real (length H))"
    by (auto simp add: enrich_race_def eq run_creators_jockey split: if_splits)
  from assms(1) show "num_races_run_seasonal rs = int (length (filter (\<lambda>r. season r = season race) H))"
    by (auto simp add: enrich_race_def eq d run_creators_jockey split: if_splits)
  from assms(1) show "days_since_last_run rs = date race - date (last H)"
    by (auto simp add: enrich_race_def eq d run_creators_jockey split: if_splits)
  from assms(1) show "days_since_last_run_log rs = np_log1p (date race - date (last H))"
    by (auto simp add: enrich_race_def eq d run_creators_jockey split: if_splits)
  from assms(1) show "days_since_last_run_sqrt rs = np_sqrt (date race - date (last H))"
    by (auto simp add: enrich_race_def eq d run_creators_jockey split: if_splits)
qed

lemma enrich_race_horse_empty:
  assumes "enrich_race hm jm race = Inr rs"
    and "dict_get hm (horse_id race) [] = []"
  shows "num_races_run rs = 0 \<and> num_races_top1 rs = 0 \<and> num_races_top2 rs = 0 \<and>
    num_races_top3 rs = 0 \<and> percent_races_top1 rs = Finite 0 \<and>
    percent_races_top2 rs = Finite 0 \<and> percent_races_top3 rs = Finite 0 \<and>
    num_races_run_seasonal rs = 0 \<and> days_since_last_run rs = 0 \<and>
    days_since_last_run_log rs = Finite 0 \<and> days_since_last_run_sqrt rs = Finite 0"
proof -
  have "run_creators variable_creators hm horse_id (RaceWithStats_init race) = Inr (RaceWithStats_init race)"
    using assms(2) by (simp add: run_creators_horse_empty RaceWithStats_init_def)
  with assms(1) show ?thesis
    by (auto simp add: enrich_race_def run_creators_jockey RaceWithStats_init_def split: if_splits)
qed


text \<open>
  Changing the outcome attributes of a race changes nothing in its enriched record
  but the copies of these attributes.
\<close>

lemma RaceWithStats_init_outcome:
  "RaceWithStats_init (race\<lparr>pla := p, lbw := l, running_position := rp, finish_time := ft, win_odds := w\<rparr>)
     = (RaceWithStats_init race)\<lparr>pla := p, lbw := l, running_position := rp, finish_time := ft, win_odds := w\<rparr>"
  by (simp add: RaceWithStats_init_def)

lemma run_creators_horse_outcome:
  assumes "run_creators variable_creators hm horse_id rs = Inr rs'"
  shows "run_creators variable_creators hm horse_id
           (rs\<lparr>pla := p, lbw := l, running_position := rp, finish_time := ft, win_odds := w\<rparr>)
         = Inr (rs'\<lparr>pla := p, lbw := l, running_position := rp, finish_time := ft, win_odds := w\<rparr>)"
proof (cases "dict_get hm (horse_id rs) [] = []")
  case True
  with assms show ?thesis by (simp add: run_creators_horse_empty)
next
  case False
  have h: "dict_get hm (horse_id (rs\<lparr>pla := p, lbw := l, running_position := rp, finish_time := ft, win_odds := w\<rparr>)) []
    = dict_get hm (horse_id rs) []" by simp
  show ?thesis
    using assms unfolding run_creators_horse_nonempty [OF refl False]
      run_creators_horse_nonempty [OF h False]
    by auto
qed

lemma run_creators_jockey_outcome:
  assumes "run_creators jockey_variable_creators jm jockey rs = Inr rs'"
  shows "run_creators jockey_variable_creators jm jockey
           (rs\<lparr>pla := p, lbw := l, running_position := rp, finish_time := ft, win_odds := w\<rparr>)
         = Inr (rs'\<lparr>pla := p, lbw := l, running_position := rp, finish_time := ft, win_odds := w\<rparr>)"
  using assms unfolding run_creators_jockey by (auto split: if_splits)

lemma enrich_race_outcome:
  assumes "enrich_race hm jm race = Inr rs"
  shows "enrich_race hm jm
           (race\<lparr>pla := p, lbw := l, running_position := rp, finish_time := ft, win_odds := w\<rparr>)
         = Inr (rs\<lparr>pla := p, lbw := l, running_position := rp, finish_time := ft, win_odds := w\<rparr>)"
proof -
  obtain rs1 where r1: "run_creators variable_creators hm horse_id (RaceWithStats_init race) = Inr rs1"
    using run_creators_horse_total by blast
  with assms have r2: "run_creators jockey_variable_creators jm jockey rs1 = Inr rs"
    by (simp add: enrich_race_def)
  show ?thesis
    unfolding enrich_race_def RaceWithStats_init_outcome
    by (simp add: run_creators_horse_outcome [OF r1] run_creators_jockey_outcome [OF r2])
qed

section \<open>Facts about the loop\<close>

lemma dict_get_append:
  "dict_get (defaultdict_append d k x) k' [] = dict_get d k' [] @ (if k' = k then [x] else [])"
  by (simp add: dict_get_def defaultdict_append_def)

lemma loop_body_total:
  "\<exists>rs. enrich_race (horse_races_map st) (jockey_races_map st) race = Inr rs \<and>
     loop_body st race = Inr (st
            \<lparr>race_group_map :=
               defaultdict_append (race_group_map st) (date race, race_index race) rs,
             horse_races_map := defaultdict_append (horse_races_map st) (horse_id race) race,
             jockey_races_map := defaultdict_append (jockey_races_map st) (jockey race) race\<rparr>)"
proof -
  obtain rs where rs: "enrich_race (horse_races_map st) (jockey_races_map st) race = Inr rs"
    using enrich_race_total by blast
  then show ?thesis
    by (simp add: loop_body_def enrich_race_key [OF rs])
qed

lemma run_loop_append:
  "run_loop st (xs @ ys) = (case run_loop st xs of Inl e \<Rightarrow> Inl e | Inr st' \<Rightarrow> run_loop st' ys)"
  by (induction xs arbitrary: st) (auto split: sum.splits)

lemma run_loop_total:
  "\<exists>st'. run_loop st xs = Inr st' \<and>
     enhanced_races st' = enhanced_races st \<and>
     (\<forall>k. dict_get (horse_races_map st') k [] =
            dict_get (horse_races_map st) k [] @ filter (\<lambda>r. horse_id r = k) xs) \<and>
     (\<forall>k. dict_get (jockey_races_map st') k [] =
            dict_get (jockey_races_map st) k [] @ filter (\<lambda>r. jockey r = k) xs)"
proof (induction xs arbitrary: st)
  case Nil
  then show ?case by simp
next
  case (Cons race races)
  obtain rs where body: "loop_body st race = Inr (st
            \<lparr>race_group_map :=
               defaultdict_append (race_group_map st) (date race, race_index race) rs,
             horse_races_map := defaultdict_append (horse_races_map st) (horse_id race) race,
             jockey_races_map := defaultdict_append (jockey_races_map st) (jockey race) race\<rparr>)"
    (is "_ = Inr ?st1")
    using loop_body_total [of st race] by blast
  obtain st' where st': "run_loop ?st1 races = Inr st'"
    "enhanced_races st' = enhanced_races ?st1"
    "\<And>k. dict_get (horse_races_map st') k [] =
            dict_get (horse_races_map ?st1) k [] @ filter (\<lambda>r. horse_id r = k) races"
    "\<And>k. dict_get (jockey_races_map st') k [] =
            dict_get (jockey_races_map ?st1) k [] @ filter (\<lambda>r. jockey r = k) races"
    using Cons.IH [of ?st1] by blast
  show ?case
    using body st' by (auto simp add: dict_get_append)
qed

lemma dict_get_init:
  "dict_get (horse_races_map init_state) k [] = []"
  "dict_get (jockey_races_map init_state) k [] = []"
  "enhanced_races init_state = []"
  by (simp_all add: init_state_def dict_get_def)

lemma run_loop_init:
  "\<exists>st. run_loop init_state xs = Inr st \<and>
     enhanced_races st = [] \<and>
     (\<forall>k. dict_get (horse_races_map st) k [] = filter (\<lambda>r. horse_id r = k) xs) \<and>
     (\<forall>k. dict_get (jockey_races_map st) k [] = filter (\<lambda>r. jockey r = k) xs)"
  using run_loop_total [of init_state xs] by (simp add: dict_get_init)

text \<open>
  The loop over \<open>pre @ race # post\<close> reaches \<open>race\<close> in the state that the loop over
  \<open>pre\<close> alone ends in, runs the loop body there and goes on with \<open>post\<close>.
\<close>

lemma split_state:
  "\<exists>st rs st'. run_loop init_state pre = Inr st \<and>
     (\<forall>k. dict_get (horse_races_map st) k [] = filter (\<lambda>r. horse_id r = k) pre) \<and>
     (\<forall>k. dict_get (jockey_races_map st) k [] = filter (\<lambda>r. jockey r = k) pre) \<and>
     enrich_race (horse_races_map st) (jockey_races_map st) race = Inr rs \<and>
     loop_body st race = Inr st' \<and>
     dict_get (race_group_map st') (date race, race_index race) [] =
       dict_get (race_group_map st) (date race, race_index race) [] @ [rs] \<and>
     (\<forall>k. dict_get (horse_races_map st') k [] = filter (\<lambda>r. horse_id r = k) (pre @ [race])) \<and>
     (\<forall>k. dict_get (jockey_races_map st') k [] = filter (\<lambda>r. jockey r = k) (pre @ [race])) \<and>
     run_loop init_state (pre @ race # post) = run_loop st' post"
proof -
  obtain st where st: "run_loop init_state pre = Inr st"
    "\<And>k. dict_get (horse_races_map st) k [] = filter (\<lambda>r. horse_id r = k) pre"
    "\<And>k. dict_get (jockey_races_map st) k [] = filter (\<lambda>r. jockey r = k) pre"
    using run_loop_init [of pre] by blast
  obtain rs where rs: "enrich_race (horse_races_map st) (jockey_races_map st) race = Inr rs"
    and body: "loop_body st race = Inr (st
            \<lparr>race_group_map :=
               defaultdict_append (race_group_map st) (date race, race_index race) rs,
             horse_races_map := defaultdict_append (horse_races_map st) (horse_id race) race,
             jockey_races_map := defaultdict_append (jockey_races_map st) (jockey race) race\<rparr>)"
    (is "_ = Inr ?st'")
    using loop_body_total [of st race] by blast
  have "run_loop init_state (pre @ race # post) = run_loop ?st' post"
    by (simp add: run_loop_append st(1) body)
  moreover have "\<forall>k. dict_get (horse_races_map ?st') k [] = filter (\<lambda>r. horse_id r = k) (pre @ [race])"
    by (simp add: dict_get_append st(2))
  moreover have "\<forall>k. dict_get (jockey_races_map ?st') k [] = filter (\<lambda>r. jockey r = k) (pre @ [race])"
    by (simp add: dict_get_append st(3))
  moreover have "dict_get (race_group_map ?st') (date race, race_index race) [] =
       dict_get (race_group_map st) (date race, race_index race) [] @ [rs]"
    by (simp add: dict_get_append)
  ultimately show ?thesis
    using st rs body by blast
qed

section \<open>Facts about the sort\<close>

lemma sort_races_sorted: "sorted (map (\<lambda>r. (date r, race_index r)) (sort_races xs))"
  by (simp add: sort_races_def)

lemma sort_races_mset: "mset (sort_races xs) = mset xs"
  by (simp add: sort_races_def)

lemma sort_races_split:
  assumes "sort_races all_races = pre @ race # post"
  shows "\<forall>r\<in>set pre. (date r, race_index r) \<le> (date race, race_index race)"
    and "\<forall>r\<in>set post. (date race, race_index race) \<le> (date r, race_index r)"
  using sort_races_sorted [of all_races] unfolding assms
  by (auto simp add: sorted_append)



section \<open>Histories of the loop against the input list\<close>

text \<open>
  When no record sorted before \<open>race\<close> with the same \<open>(date, race_index)\<close> has its
  identifier, the records before it with that identifier are the records of the whole
  list with that identifier and a strictly earlier \<open>(date, race_index)\<close>.
\<close>

lemma history_strictly_earlier:
  fixes ident :: "'v Race \<Rightarrow> string"
  assumes "sort_races all_races = pre @ race # post"
    and "\<forall>r\<in>set pre. (date r, race_index r) = (date race, race_index race) \<longrightarrow>
           ident r \<noteq> ident race"
  shows "filter (\<lambda>r. ident r = ident race) pre
       = filter (\<lambda>r. ident r = ident race \<and>
                     (date r, race_index r) < (date race, race_index race))
           (sort_races all_races)"
proof -
  let ?k = "\<lambda>r::'v Race. (date r, race_index r)"
  have pre_le: "\<forall>r\<in>set pre. ?k r \<le> ?k race"
    and post_ge: "\<forall>r\<in>set post. ?k race \<le> ?k r"
    using sort_races_split [OF assms(1)] by blast+
  have post_e: "filter (\<lambda>r. ident r = ident race \<and> ?k r < ?k race) post = []"
    using post_ge by (auto simp add: filter_empty_conv)
  have pre_e: "filter (\<lambda>r. ident r = ident race \<and> ?k r < ?k race) pre
                = filter (\<lambda>r. ident r = ident race) pre"
  proof (rule filter_cong [OF refl])
    fix r assume r: "r \<in> set pre"
    with pre_le have "?k r \<le> ?k race" by blast
    moreover from r assms(2) have "ident r = ident race \<longrightarrow> ?k r \<noteq> ?k race" by blast
    ultimately show "(ident r = ident race \<and> ?k r < ?k race) = (ident r = ident race)"
      by (auto simp add: less_le)
  qed
  show ?thesis
    unfolding assms(1) by (simp add: pre_e post_e del: less_prod_simp)
qed

text \<open>
  When \<open>(date, race_index, identifier)\<close> identifies a record of the input, the history
  the loop has built is the specification's history, which is the same for every
  permutation of the input.
\<close>

lemma history_is_earlier_runs:
  fixes ident :: "'v Race \<Rightarrow> string"
  assumes "sort_races all_races = pre @ race # post"
    and "distinct (map (\<lambda>r. (date r, race_index r, ident r)) all_races)"
  shows "filter (\<lambda>r. ident r = ident race) pre = earlier_runs ident all_races race"
proof -
  let ?f = "\<lambda>r::'v Race. (date r, race_index r, ident r)"
  have "mset (map ?f (sort_races all_races)) = mset (map ?f all_races)"
    using sort_races_mset [of all_races] by (metis mset_map)
  from mset_eq_imp_distinct_iff [OF this] assms(2)
  have "distinct (map ?f (sort_races all_races))" by blast
  then have notin: "?f race \<notin> ?f ` set pre"
    unfolding assms(1) by simp
  have "\<forall>r\<in>set pre. (date r, race_index r) = (date race, race_index race) \<longrightarrow>
           ident r \<noteq> ident race"
  proof (intro ballI impI notI)
    fix r assume r: "r \<in> set pre"
      and k: "(date r, race_index r) = (date race, race_index race)"
      and i: "ident r = ident race"
    have "?f race = ?f r" using k i by simp
    then have "?f race \<in> ?f ` set pre" using r by (rule image_eqI)
    with notin show False by contradiction
  qed
  from history_strictly_earlier [OF assms(1) this] show ?thesis
    by (simp add: earlier_runs_def sort_races_def filter_sort)
qed

lemma earlier_runs_permutation:
  fixes ident :: "'v Race \<Rightarrow> string"
  assumes "mset all_races' = mset all_races"
    and "distinct (map (\<lambda>r. (date r, race_index r, ident r)) all_races)"
  shows "earlier_runs ident all_races' race = earlier_runs ident all_races race"
proof -
  let ?f = "\<lambda>r::'v Race. (date r, race_index r, ident r)"
  let ?k = "\<lambda>r::'v Race. (date r, race_index r)"
  let ?P = "\<lambda>r. ident r = ident race \<and> ?k r < ?k race"
  have "mset (map ?f all_races') = mset (map ?f all_races)"
    using assms(1) by (metis mset_map)
  from mset_eq_imp_distinct_iff [OF this] assms(2)
  have d': "distinct (map ?f all_races')" by blast
  then have inj: "inj_on ?f (set all_races')" by (simp add: distinct_map)
  have ik: "inj_on ?k (set (filter ?P all_races'))"
  proof (rule inj_onI)
    fix x y assume "x \<in> set (filter ?P all_races')" "y \<in> set (filter ?P all_races')" "?k x = ?k y"
    then have x: "x \<in> set all_races'" and y: "y \<in> set all_races'" and e: "?f x = ?f y"
      by auto
    from inj_onD [OF inj e x y] show "x = y" .
  qed
  have m: "mset (filter ?P all_races') = mset (sort_key ?k (filter ?P all_races))"
    by (simp only: mset_filter mset_sort assms(1))
  have so: "sorted (map ?k (sort_key ?k (filter ?P all_races)))"
    by (rule sorted_sort_key)
  have "sort_key ?k (filter ?P all_races') = sort_key ?k (filter ?P all_races)"
    by (rule sort_key_inj_key_eq [OF m ik so])
  then show ?thesis by (simp add: earlier_runs_def)
qed

text \<open>
  Enrichment reads the two maps only at the horse and the jockey of the race.
\<close>

lemma enrich_race_cong:
  assumes "dict_get hm (horse_id race) [] = dict_get hm' (horse_id race) []"
    and "dict_get jm (jockey race) [] = dict_get jm' (jockey race) []"
  shows "enrich_race hm jm race = enrich_race hm' jm' race"
proof -
  let ?r0 = "RaceWithStats_init race"
  have h0: "horse_id ?r0 = horse_id race" and j0: "jockey ?r0 = jockey race"
    by (simp_all add: RaceWithStats_init_def)
  show ?thesis
  proof (cases "dict_get hm (horse_id race) [] = []")
    case True
    then have e: "dict_get hm (horse_id ?r0) [] = []" "dict_get hm' (horse_id ?r0) [] = []"
      using assms(1) by (simp_all only: h0)
    show ?thesis
      unfolding enrich_race_def run_creators_horse_empty [OF e(1)] run_creators_horse_empty [OF e(2)]
      by (simp add: run_creators_jockey j0 assms(2))
  next
    case False
    have a: "dict_get hm (horse_id ?r0) [] = dict_get hm (horse_id race) []"
      by (simp only: h0)
    have b: "dict_get hm' (horse_id ?r0) [] = dict_get hm (horse_id race) []"
      using assms(1) by (simp only: h0)
    show ?thesis
      unfolding enrich_race_def run_creators_horse_nonempty [OF a False]
        run_creators_horse_nonempty [OF b False]
      by (simp add: run_creators_jockey j0 assms(2))
  qed
qed

lemma dict_get_singleton: "dict_get [k \<mapsto> v] k [] = v"
  by (simp add: dict_get_def)

lemma enrich_from_input_permutation:
  assumes "mset all_races' = mset all_races"
    and "distinct (map (\<lambda>r. (date r, race_index r, horse_id r)) all_races)"
    and "distinct (map (\<lambda>r. (date r, race_index r, jockey r)) all_races)"
  shows "enrich_from_input all_races' race = enrich_from_input all_races race"
  unfolding enrich_from_input_def
  by (simp only: earlier_runs_permutation [OF assms(1) assms(2)]
      earlier_runs_permutation [OF assms(1) assms(3)])

text \<open>
  The records the loop files under \<^verbatim>\<open>race_group_map\<close>, in processing order.
\<close>

lemma run_loop_groups:
  assumes "sort_races all_races = pre @ rest"
    and "distinct (map (\<lambda>r. (date r, race_index r, horse_id r)) all_races)"
    and "distinct (map (\<lambda>r. (date r, race_index r, jockey r)) all_races)"
    and "\<forall>k. dict_get (horse_races_map st) k [] = filter (\<lambda>r. horse_id r = k) pre"
    and "\<forall>k. dict_get (jockey_races_map st) k [] = filter (\<lambda>r. jockey r = k) pre"
  shows "\<exists>st'. run_loop st rest = Inr st' \<and>
     (\<forall>k. map Inr (dict_get (race_group_map st') k [])
          = map Inr (dict_get (race_group_map st) k [])
            @ map (enrich_from_input all_races)
                (filter (\<lambda>r. (date r, race_index r) = k) rest))"
  using assms
proof (induction rest arbitrary: pre st)
  case Nil
  then show ?case by simp
next
  case (Cons race rest)
  obtain rs where rs: "enrich_race (horse_races_map st) (jockey_races_map st) race = Inr rs"
    and body: "loop_body st race = Inr (st
            \<lparr>race_group_map :=
               defaultdict_append (race_group_map st) (date race, race_index race) rs,
             horse_races_map := defaultdict_append (horse_races_map st) (horse_id race) race,
             jockey_races_map := defaultdict_append (jockey_races_map st) (jockey race) race\<rparr>)"
    (is "_ = Inr ?st1")
    using loop_body_total [of st race] by blast
  have H: "dict_get (horse_races_map st) (horse_id race) [] = earlier_runs horse_id all_races race"
    using Cons.prems(4) history_is_earlier_runs [OF Cons.prems(1) Cons.prems(2)] by simp
  have J: "dict_get (jockey_races_map st) (jockey race) [] = earlier_runs jockey all_races race"
    using Cons.prems(5) history_is_earlier_runs [OF Cons.prems(1) Cons.prems(3)] by simp
  have E: "enrich_from_input all_races race = Inr rs"
    unfolding enrich_from_input_def rs [symmetric]
    by (rule enrich_race_cong) (simp_all only: dict_get_singleton H J)
  have s1: "sort_races all_races = (pre @ [race]) @ rest"
    using Cons.prems(1) by simp
  have h1: "\<forall>k. dict_get (horse_races_map ?st1) k [] = filter (\<lambda>r. horse_id r = k) (pre @ [race])"
    using Cons.prems(4) by (simp add: dict_get_append)
  have j1: "\<forall>k. dict_get (jockey_races_map ?st1) k [] = filter (\<lambda>r. jockey r = k) (pre @ [race])"
    using Cons.prems(5) by (simp add: dict_get_append)
  from Cons.IH [OF s1 Cons.prems(2) Cons.prems(3) h1 j1]
  obtain st' where st': "run_loop ?st1 rest = Inr st'"
    and g: "\<And>k. map Inr (dict_get (race_group_map st') k [])
          = map Inr (dict_get (race_group_map ?st1) k [])
            @ map (enrich_from_input all_races)
                (filter (\<lambda>r. (date r, race_index r) = k) rest)"
    by blast
  have g1: "\<And>k. dict_get (race_group_map ?st1) k []
      = dict_get (race_group_map st) k [] @ (if k = (date race, race_index race) then [rs] else [])"
    by (simp add: dict_get_append)
  have "run_loop st (race # rest) = Inr st'"
    by (simp add: body st')
  moreover have "\<forall>k. map Inr (dict_get (race_group_map st') k [])
          = map Inr (dict_get (race_group_map st) k [])
            @ map (enrich_from_input all_races)
                (filter (\<lambda>r. (date r, race_index r) = k) (race # rest))"
    unfolding g g1 by (auto simp add: E)
  ultimately show ?case by blast
qed

lemma groups_of_run:
  assumes "distinct (map (\<lambda>r. (date r, race_index r, horse_id r)) all_races)"
    and "distinct (map (\<lambda>r. (date r, race_index r, jockey r)) all_races)"
  shows "\<exists>st. run_loop init_state (sort_races all_races) = Inr st \<and>
     (\<forall>k. map Inr (dict_get (race_group_map st) k [])
          = map (enrich_from_input all_races)
              (filter (\<lambda>r. (date r, race_index r) = k) (sort_races all_races)))"
proof -
  have s: "sort_races all_races = [] @ sort_races all_races" by simp
  have h: "\<forall>k. dict_get (horse_races_map init_state) k [] = filter (\<lambda>r. horse_id r = k) []"
    and j: "\<forall>k. dict_get (jockey_races_map init_state) k [] = filter (\<lambda>r. jockey r = k) []"
    by (simp_all add: dict_get_init)
  have g: "\<And>k. dict_get (race_group_map init_state) k [] = []"
    by (simp add: init_state_def dict_get_def)
  from run_loop_groups [OF s assms h j] show ?thesis
    by (simp add: g)
qed

lemma mset_map_Inr_eq:
  assumes "mset (map Inr xs) = mset (map Inr ys)"
  shows "mset xs = mset ys"
  using arg_cong [OF assms, of "image_mset projr"]
  by (simp add: multiset.map_comp comp_def)

section \<open>The claims\<close>

text \<open>
  C1. The driver is documented to return one enriched record per input record. The
  loop appends each enriched record to \<^verbatim>\<open>race_group_map\<close> only; the list
  \<^verbatim>\<open>enhanced_races\<close> that is returned is never appended to, so the call returns the
  empty list for every input, also for a non-empty one.
\<close>

theorem compute_derived_variables_returns_empty:
  "snd (compute_derived_variables all_races) = Inr []"
proof -
  obtain st where "run_loop init_state (sort_races all_races) = Inr st" "enhanced_races st = []"
    using run_loop_init by blast
  then show ?thesis by (simp add: compute_derived_variables_def Let_def)
qed





text \<open>
  C4. No lookahead. Let \<open>race\<close> be any record of the sorted list, \<open>pre\<close> the records
  before it and \<open>post\<close> the records after it. The loop reaches \<open>race\<close> in the state
  \<open>st\<close> that the loop over \<open>pre\<close> alone ends in, so nothing in \<open>st\<close> comes from \<open>race\<close>
  or from \<open>post\<close>: the two histories looked up for \<open>race\<close> are the records of \<open>pre\<close>
  with its horse id and with its jockey id. The enriched record is computed from \<open>st\<close>
  and \<open>race\<close>, and replacing the outcome attributes of \<open>race\<close> (finishing position,
  lengths behind, running position, finish time, odds) changes only their copies in
  the enriched record, no statistic. Only the loop body's last steps append \<open>race\<close>
  to both histories, after which the loop goes on with \<open>post\<close>.
\<close>

theorem no_lookahead:
  assumes "sort_races all_races = pre @ race # post"
  shows "\<exists>st race_stats st'.
     run_loop init_state pre = Inr st \<and>
     dict_get (horse_races_map st) (horse_id race) []
       = filter (\<lambda>r. horse_id r = horse_id race) pre \<and>
     dict_get (jockey_races_map st) (jockey race) []
       = filter (\<lambda>r. jockey r = jockey race) pre \<and>
     enrich_race (horse_races_map st) (jockey_races_map st) race = Inr race_stats \<and>
     (\<forall>p l rp ft w.
        enrich_race (horse_races_map st) (jockey_races_map st)
          (race\<lparr>pla := p, lbw := l, running_position := rp, finish_time := ft, win_odds := w\<rparr>)
        = Inr (race_stats\<lparr>pla := p, lbw := l, running_position := rp, finish_time := ft, win_odds := w\<rparr>)) \<and>
     loop_body st race = Inr st' \<and>
     dict_get (race_group_map st') (date race, race_index race) []
       = dict_get (race_group_map st) (date race, race_index race) [] @ [race_stats] \<and>
     dict_get (horse_races_map st') (horse_id race) []
       = filter (\<lambda>r. horse_id r = horse_id race) pre @ [race] \<and>
     dict_get (jockey_races_map st') (jockey race) []
       = filter (\<lambda>r. jockey r = jockey race) pre @ [race] \<and>
     run_loop init_state (sort_races all_races) = run_loop st' post"
proof -
  obtain st rs st' where s: "run_loop init_state pre = Inr st"
    "\<And>k. dict_get (horse_races_map st) k [] = filter (\<lambda>r. horse_id r = k) pre"
    "\<And>k. dict_get (jockey_races_map st) k [] = filter (\<lambda>r. jockey r = k) pre"
    "enrich_race (horse_races_map st) (jockey_races_map st) race = Inr rs"
    "loop_body st race = Inr st'"
    "dict_get (race_group_map st') (date race, race_index race) [] =
       dict_get (race_group_map st) (date race, race_index race) [] @ [rs]"
    "\<And>k. dict_get (horse_races_map st') k [] = filter (\<lambda>r. horse_id r = k) (pre @ [race])"
    "\<And>k. dict_get (jockey_races_map st') k [] = filter (\<lambda>r. jockey r = k) (pre @ [race])"
    "run_loop init_state (pre @ race # post) = run_loop st' post"
    using split_state [of pre race post] by blast
  have out: "\<forall>p l rp ft w.
        enrich_race (horse_races_map st) (jockey_races_map st)
          (race\<lparr>pla := p, lbw := l, running_position := rp, finish_time := ft, win_odds := w\<rparr>)
        = Inr (rs\<lparr>pla := p, lbw := l, running_position := rp, finish_time := ft, win_odds := w\<rparr>)"
    using enrich_race_outcome [OF s(4)] by blast
  have h': "dict_get (horse_races_map st') (horse_id race) []
       = filter (\<lambda>r. horse_id r = horse_id race) pre @ [race]"
    by (simp add: s(7))
  have j': "dict_get (jockey_races_map st') (jockey race) []
       = filter (\<lambda>r. jockey r = jockey race) pre @ [race]"
    by (simp add: s(8))
  from s(1) s(2) [of "horse_id race"] s(3) [of "jockey race"] s(4) out s(5) s(6) h' j' s(9)
  show ?thesis unfolding assms by blast
qed

theorem no_lookahead_witness:
  "sort_races [rc, rb, ra] = [ra, rb] @ rc # [] \<and>
   (\<exists>st race_stats st'.
     run_loop init_state [ra, rb] = Inr st \<and>
     dict_get (horse_races_map st) ''H1'' [] = [ra, rb] \<and>
     dict_get (jockey_races_map st) ''J1'' [] = [ra] \<and>
     enrich_race (horse_races_map st) (jockey_races_map st) rc = Inr race_stats \<and>
     enrich_race (horse_races_map st) (jockey_races_map st)
         (rc\<lparr>pla := ''01'', lbw := (), running_position := (), finish_time := (), win_odds := ()\<rparr>)
       = Inr (race_stats\<lparr>pla := ''01'', lbw := (), running_position := (),
                finish_time := (), win_odds := ()\<rparr>) \<and>
     loop_body st rc = Inr st' \<and>
     dict_get (horse_races_map st') ''H1'' [] = [ra, rb, rc] \<and>
     dict_get (jockey_races_map st') ''J1'' [] = [ra, rc])"
proof -
  have h1: "sort_races [rc, rb, ra] = [ra, rb] @ rc # []"
    by (simp add: sort_races_def ex_race_def)
  have e: "horse_id rc = ''H1''" "jockey rc = ''J1''"
    "filter (\<lambda>r. horse_id r = ''H1'') [ra, rb] = [ra, rb]"
    "filter (\<lambda>r. jockey r = ''J1'') [ra, rb] = [ra]"
    by (simp_all add: ex_race_def)
  from no_lookahead [OF h1]
  obtain st race_stats st' where a:
    "run_loop init_state [ra, rb] = Inr st"
    "dict_get (horse_races_map st) (horse_id rc) [] = filter (\<lambda>r. horse_id r = horse_id rc) [ra, rb]"
    "dict_get (jockey_races_map st) (jockey rc) [] = filter (\<lambda>r. jockey r = jockey rc) [ra, rb]"
    "enrich_race (horse_races_map st) (jockey_races_map st) rc = Inr race_stats"
    "\<And>p l rp ft w.
        enrich_race (horse_races_map st) (jockey_races_map st)
          (rc\<lparr>pla := p, lbw := l, running_position := rp, finish_time := ft, win_odds := w\<rparr>)
        = Inr (race_stats\<lparr>pla := p, lbw := l, running_position := rp, finish_time := ft, win_odds := w\<rparr>)"
    "loop_body st rc = Inr st'"
    "dict_get (horse_races_map st') (horse_id rc) [] = filter (\<lambda>r. horse_id r = horse_id rc) [ra, rb] @ [rc]"
    "dict_get (jockey_races_map st') (jockey rc) [] = filter (\<lambda>r. jockey r = jockey rc) [ra, rb] @ [rc]"
    by blast
  note o = a(5) [where p = "''01''" and l = "()" and rp = "()" and ft = "()" and w = "()"]
  have b: "dict_get (horse_races_map st) ''H1'' [] = [ra, rb]"
    "dict_get (jockey_races_map st) ''J1'' [] = [ra]"
    "dict_get (horse_races_map st') ''H1'' [] = [ra, rb, rc]"
    "dict_get (jockey_races_map st') ''J1'' [] = [ra, rc]"
    using a(2,3,7,8) unfolding e by simp_all
  from a(1) b(1,2) a(4) o a(6) b(3,4) h1 show ?thesis by blast
qed




text \<open>
  C6, as stated, fails for the enriched records. The sort is stable, so records with
  equal \<open>(date, race_index)\<close> are processed in input order. For \<open>rb\<close> and \<open>rx2\<close> (one
  race, different horses, the same jockey id) the record that comes first in the input
  is enriched with an empty jockey history and the other with a history of one entry:
  the two input orders give different statistics for both records, and sorting the
  enriched records by \<open>(date, race_index, horse_id)\<close> does not make them equal. The lists
  the two calls return are equal only because both are empty (see C1).
\<close>

theorem enriched_records_order_counterexample:
  "mset [rx2, rb] = mset [rb, rx2] \<and>
   horse_id rb \<noteq> horse_id rx2 \<and>
   sort_races [rb, rx2] = [rb, rx2] \<and>
   sort_races [rx2, rb] = [rx2, rb] \<and>
   map_sum id (\<lambda>st. map (\<lambda>rs. (horse_id rs, jokey_num_races_run rs))
                      (dict_get (race_group_map st) (10, 2) []))
     (run_loop init_state (sort_races [rb, rx2])) = Inr [(''H1'', 0), (''H3'', 1)] \<and>
   map_sum id (\<lambda>st. map (\<lambda>rs. (horse_id rs, jokey_num_races_run rs))
                      (dict_get (race_group_map st) (10, 2) []))
     (run_loop init_state (sort_races [rx2, rb])) = Inr [(''H3'', 0), (''H1'', 1)] \<and>
   snd (compute_derived_variables [rb, rx2]) = Inr [] \<and>
   snd (compute_derived_variables [rx2, rb]) = Inr []"
  by (simp add: compute_derived_variables_def sort_races_def ex_race_def loop_body_def
      enrich_race_def variable_creators_def
      jockey_variable_creators_def init_state_def dict_get_def defaultdict_append_def
      RaceWithStats_init_def compute_num_races_run_def compute_num_races_run_seasonal_def
      compute_days_since_last_run_def compute_jockey_num_races_run_def py_true_div_def
      last_item_def Counter_def np_log1p_def np_sqrt_def Let_def)

text \<open>
  C6, amended. Let no two records of the input agree on \<open>(date, race_index, horse_id)\<close>
  and no two agree on \<open>(date, race_index, jockey)\<close>. Then for the input and every
  permutation of it the loop ends normally, and in both runs the records filed under
  \<^verbatim>\<open>race_group_map\<close> for a race are, one for each input record of that race in
  processing order, the enrichment of that record against the histories read off the
  input list. So the enriched records of every race, every derived statistic
  included, are the same in both runs: equal as multisets, and equal as lists once
  sorted by \<open>(date, race_index, horse_id)\<close>.
\<close>

theorem enriched_records_independent_of_input_order:
  assumes "mset all_races' = mset all_races"
    and "distinct (map (\<lambda>r. (date r, race_index r, horse_id r)) all_races)"
    and "distinct (map (\<lambda>r. (date r, race_index r, jockey r)) all_races)"
  shows "\<exists>st st'.
     run_loop init_state (sort_races all_races) = Inr st \<and>
     run_loop init_state (sort_races all_races') = Inr st' \<and>
     (\<forall>k. map Inr (dict_get (race_group_map st) k [])
            = map (enrich_from_input all_races)
                (filter (\<lambda>r. (date r, race_index r) = k) (sort_races all_races)) \<and>
          map Inr (dict_get (race_group_map st') k [])
            = map (enrich_from_input all_races)
                (filter (\<lambda>r. (date r, race_index r) = k) (sort_races all_races')) \<and>
          mset (dict_get (race_group_map st') k []) = mset (dict_get (race_group_map st) k []) \<and>
          sort_key (\<lambda>rs. (date rs, race_index rs, horse_id rs)) (dict_get (race_group_map st') k [])
            = sort_key (\<lambda>rs. (date rs, race_index rs, horse_id rs)) (dict_get (race_group_map st) k []))"
proof -
  let ?fh = "\<lambda>r::'a Race. (date r, race_index r, horse_id r)"
  let ?fj = "\<lambda>r::'a Race. (date r, race_index r, jockey r)"
  let ?f3 = "\<lambda>rs::'a RaceWithStats. (date rs, race_index rs, horse_id rs)"
  have mh: "mset (map ?fh all_races') = mset (map ?fh all_races)"
    and mj: "mset (map ?fj all_races') = mset (map ?fj all_races)"
    using assms(1) by (metis mset_map)+
  from mset_eq_imp_distinct_iff [OF mh] assms(2) have dh': "distinct (map ?fh all_races')" by blast
  from mset_eq_imp_distinct_iff [OF mj] assms(3) have dj': "distinct (map ?fj all_races')" by blast
  obtain st where st: "run_loop init_state (sort_races all_races) = Inr st"
    and g: "\<And>k. map Inr (dict_get (race_group_map st) k [])
          = map (enrich_from_input all_races)
              (filter (\<lambda>r. (date r, race_index r) = k) (sort_races all_races))"
    using groups_of_run [OF assms(2) assms(3)] by blast
  obtain st' where st': "run_loop init_state (sort_races all_races') = Inr st'"
    and g0: "\<And>k. map Inr (dict_get (race_group_map st') k [])
          = map (enrich_from_input all_races')
              (filter (\<lambda>r. (date r, race_index r) = k) (sort_races all_races'))"
    using groups_of_run [OF dh' dj'] by blast
  have ee: "enrich_from_input all_races' = enrich_from_input all_races"
    by (rule ext) (rule enrich_from_input_permutation [OF assms])
  note g' = g0 [unfolded ee]
  have "map Inr (dict_get (race_group_map st) k [])
            = map (enrich_from_input all_races)
                (filter (\<lambda>r. (date r, race_index r) = k) (sort_races all_races)) \<and>
        map Inr (dict_get (race_group_map st') k [])
            = map (enrich_from_input all_races)
                (filter (\<lambda>r. (date r, race_index r) = k) (sort_races all_races')) \<and>
        mset (dict_get (race_group_map st') k []) = mset (dict_get (race_group_map st) k []) \<and>
        sort_key ?f3 (dict_get (race_group_map st') k [])
          = sort_key ?f3 (dict_get (race_group_map st) k [])" for k
  proof -
    let ?G = "dict_get (race_group_map st) k []" and ?G' = "dict_get (race_group_map st') k []"
    let ?I = "Inr :: 'a RaceWithStats \<Rightarrow> error + 'a RaceWithStats"
    have "mset (map ?I ?G') = mset (map ?I ?G)"
      unfolding g g' by (simp add: sort_races_mset assms(1))
    then have m: "mset ?G' = mset ?G" by (rule mset_map_Inr_eq)
    have inj: "inj_on ?f3 (set ?G')"
    proof (rule inj_onI)
      fix x y assume x: "x \<in> set ?G'" and y: "y \<in> set ?G'" and e: "?f3 x = ?f3 y"
      from x have "?I x \<in> set (map ?I ?G')" by simp
      then obtain r where r: "r \<in> set (sort_races all_races')" "enrich_from_input all_races r = Inr x"
        unfolding g' by auto
      from y have "?I y \<in> set (map ?I ?G')" by simp
      then obtain r' where r': "r' \<in> set (sort_races all_races')" "enrich_from_input all_races r' = Inr y"
        unfolding g' by auto
      have kx: "?f3 x = ?fh r"
        using enrich_race_key [OF r(2) [unfolded enrich_from_input_def]] by simp
      have ky: "?f3 y = ?fh r'"
        using enrich_race_key [OF r'(2) [unfolded enrich_from_input_def]] by simp
      have mem: "r \<in> set all_races'" "r' \<in> set all_races'"
        using r(1) r'(1) sort_races_mset [of all_races'] by (metis mset_eq_setD)+
      have "inj_on ?fh (set all_races')" using dh' by (simp add: distinct_map)
      from inj_onD [OF this _ mem] e kx ky have "r = r'" by simp
      with r(2) r'(2) show "x = y" by simp
    qed
    have "mset ?G' = mset (sort_key ?f3 ?G)" using m by simp
    from sort_key_inj_key_eq [OF this inj sorted_sort_key] m g [of k] g' [of k]
    show ?thesis by simp
  qed
  with st st' show ?thesis by blast
qed

theorem enriched_records_independent_of_input_order_witness:
  "mset [rb, rc, rx, ra] = mset [ra, rx, rb, rc] \<and>
   distinct (map (\<lambda>r. (date r, race_index r, horse_id r)) [ra, rx, rb, rc]) \<and>
   distinct (map (\<lambda>r. (date r, race_index r, jockey r)) [ra, rx, rb, rc]) \<and>
   sort_races [ra, rx, rb, rc] = [ra, rx, rb, rc] \<and>
   sort_races [rb, rc, rx, ra] = [ra, rb, rx, rc] \<and>
   (\<exists>st st'.
     run_loop init_state [ra, rx, rb, rc] = Inr st \<and>
     run_loop init_state [ra, rb, rx, rc] = Inr st' \<and>
     map (\<lambda>rs. (horse_id rs, num_races_run rs, days_since_last_run rs))
       (dict_get (race_group_map st) (10, 2) []) = [(''H3'', 0, 0), (''H1'', 1, 7)] \<and>
     map (\<lambda>rs. (horse_id rs, num_races_run rs, days_since_last_run rs))
       (dict_get (race_group_map st') (10, 2) []) = [(''H1'', 1, 7), (''H3'', 0, 0)] \<and>
     mset (dict_get (race_group_map st') (10, 2) []) = mset (dict_get (race_group_map st) (10, 2) []) \<and>
     sort_key (\<lambda>rs. (date rs, race_index rs, horse_id rs)) (dict_get (race_group_map st') (10, 2) [])
       = sort_key (\<lambda>rs. (date rs, race_index rs, horse_id rs)) (dict_get (race_group_map st) (10, 2) []))"
proof -
  let ?p = "\<lambda>rs::unit RaceWithStats. (horse_id rs, num_races_run rs, days_since_last_run rs)"
  let ?I = "Inr :: unit RaceWithStats \<Rightarrow> error + unit RaceWithStats"
  have h1: "mset [rb, rc, rx, ra] = mset [ra, rx, rb, rc]" by simp
  have h2: "distinct (map (\<lambda>r. (date r, race_index r, horse_id r)) [ra, rx, rb, rc])"
    and h3: "distinct (map (\<lambda>r. (date r, race_index r, jockey r)) [ra, rx, rb, rc])"
    by (simp_all add: ex_race_def)
  have s1: "sort_races [ra, rx, rb, rc] = [ra, rx, rb, rc]"
    and s2: "sort_races [rb, rc, rx, ra] = [ra, rb, rx, rc]"
    by (simp_all add: sort_races_def ex_race_def)
  have f1: "filter (\<lambda>r. (date r, race_index r) = (10, 2)) [ra, rx, rb, rc] = [rx, rb]"
    and f2: "filter (\<lambda>r. (date r, race_index r) = (10, 2)) [ra, rb, rx, rc] = [rb, rx]"
    by (simp_all add: ex_race_def)
  have ex: "map_sum id ?p (enrich_from_input [ra, rx, rb, rc] rx) = Inr (''H3'', 0, 0)"
    and eb: "map_sum id ?p (enrich_from_input [ra, rx, rb, rc] rb) = Inr (''H1'', 1, 7)"
    by (simp_all add: enrich_from_input_def earlier_runs_def ex_race_def enrich_race_def
      variable_creators_def jockey_variable_creators_def dict_get_def
      RaceWithStats_init_def compute_num_races_run_def compute_num_races_run_seasonal_def
      compute_days_since_last_run_def compute_jockey_num_races_run_def py_true_div_def
      last_item_def Counter_def np_log1p_def np_sqrt_def Let_def)
  from enriched_records_independent_of_input_order [OF h1 h2 h3]
  obtain st st' where r: "run_loop init_state [ra, rx, rb, rc] = Inr st"
     "run_loop init_state [ra, rb, rx, rc] = Inr st'"
    and g: "map Inr (dict_get (race_group_map st) (10, 2) [])
            = map (enrich_from_input [ra, rx, rb, rc]) [rx, rb]"
    and g': "map Inr (dict_get (race_group_map st') (10, 2) [])
            = map (enrich_from_input [ra, rx, rb, rc]) [rb, rx]"
    and m: "mset (dict_get (race_group_map st') (10, 2) []) = mset (dict_get (race_group_map st) (10, 2) [])"
     "sort_key (\<lambda>rs. (date rs, race_index rs, horse_id rs)) (dict_get (race_group_map st') (10, 2) [])
       = sort_key (\<lambda>rs. (date rs, race_index rs, horse_id rs)) (dict_get (race_group_map st) (10, 2) [])"
    unfolding s1 s2 f1 [symmetric] f2 [symmetric] by blast
  have "map (map_sum id ?p) (map ?I (dict_get (race_group_map st) (10, 2) []))
      = [Inr (''H3'', 0, 0), Inr (''H1'', 1, 7)]"
    unfolding g using ex eb by simp
  then have v: "map ?p (dict_get (race_group_map st) (10, 2) []) = [(''H3'', 0, 0), (''H1'', 1, 7)]"
    by (auto simp add: map_eq_Cons_conv)
  have "map (map_sum id ?p) (map ?I (dict_get (race_group_map st') (10, 2) []))
      = [Inr (''H1'', 1, 7), Inr (''H3'', 0, 0)]"
    unfolding g' using ex eb by simp
  then have v': "map ?p (dict_get (race_group_map st') (10, 2) []) = [(''H1'', 1, 7), (''H3'', 0, 0)]"
    by (auto simp add: map_eq_Cons_conv)
  have "\<exists>st st'.
     run_loop init_state [ra, rx, rb, rc] = Inr st \<and>
     run_loop init_state [ra, rb, rx, rc] = Inr st' \<and>
     map ?p (dict_get (race_group_map st) (10, 2) []) = [(''H3'', 0, 0), (''H1'', 1, 7)] \<and>
     map ?p (dict_get (race_group_map st') (10, 2) []) = [(''H1'', 1, 7), (''H3'', 0, 0)] \<and>
     mset (dict_get (race_group_map st') (10, 2) []) = mset (dict_get (race_group_map st) (10, 2) []) \<and>
     sort_key (\<lambda>rs. (date rs, race_index rs, horse_id rs)) (dict_get (race_group_map st') (10, 2) [])
       = sort_key (\<lambda>rs. (date rs, race_index rs, horse_id rs)) (dict_get (race_group_map st) (10, 2) [])"
    by (rule exI [of _ st], rule exI [of _ st'], intro conjI) (rule r v v' m)+
  with h1 h2 h3 s1 s2 show ?thesis by (intro conjI)
qed

text \<open>
  The condition on the horse id cannot be dropped from either amendment: when one horse
  has two records in one race (here \<open>rb\<close> and \<open>rb2\<close>, with different jockeys), the
  record processed second has the other in its horse history, and which one that is
  depends on the input order.
\<close>

lemma same_horse_twice_depends_on_order:
  "(date rb, race_index rb) = (date rb2, race_index rb2) \<and>
   horse_id rb = horse_id rb2 \<and> jockey rb \<noteq> jockey rb2 \<and>
   sort_races [rb, rb2] = [rb, rb2] \<and>
   sort_races [rb2, rb] = [rb2, rb] \<and>
   map_sum id (\<lambda>st. map (\<lambda>rs. (jockey rs, num_races_run rs))
                      (dict_get (race_group_map st) (10, 2) []))
     (run_loop init_state (sort_races [rb, rb2])) = Inr [(''J2'', 0), (''J4'', 1)] \<and>
   map_sum id (\<lambda>st. map (\<lambda>rs. (jockey rs, num_races_run rs))
                      (dict_get (race_group_map st) (10, 2) []))
     (run_loop init_state (sort_races [rb2, rb])) = Inr [(''J4'', 0), (''J2'', 1)]"
  by (simp add: sort_races_def ex_race_def loop_body_def enrich_race_def variable_creators_def
      jockey_variable_creators_def init_state_def dict_get_def defaultdict_append_def
      RaceWithStats_init_def compute_num_races_run_def compute_num_races_run_seasonal_def
      compute_days_since_last_run_def compute_jockey_num_races_run_def py_true_div_def
      last_item_def Counter_def np_log1p_def np_sqrt_def Let_def)





text \<open>
  C9. Monotonicity of \<^verbatim>\<open>num_races_run\<close>. Enriching \<open>race\<close> against a horse map, and
  against the same map with one more record \<open>x\<close> appended to the history of its
  horse, gives the run counts \<open>|H|\<close> and \<open>|H| + 1\<close>: the value never decreases. For the
  creator called directly: on a non-empty \<open>H\<close> the counts are \<open>|H|\<close> and \<open>|H| + 1\<close>; on an
  empty \<open>H\<close> the creator raises \<^verbatim>\<open>ZeroDivisionError\<close> (the driver never calls it so),
  and on \<open>[x]\<close> it gives 1.
\<close>

theorem num_races_run_monotone:
  "\<exists>a b.
     enrich_race horse_map jockey_map race = Inr a \<and>
     enrich_race (defaultdict_append horse_map (horse_id race) x) jockey_map race = Inr b \<and>
     num_races_run a = int (length (dict_get horse_map (horse_id race) [])) \<and>
     num_races_run b = num_races_run a + 1 \<and>
     num_races_run a \<le> num_races_run b \<and>
     (if H = [] then
        compute_num_races_run race_stats H = Inl ZeroDivisionError \<and>
        (\<exists>b'. compute_num_races_run race_stats (H @ [x]) = Inr b' \<and> num_races_run b' = 1)
      else
        (\<exists>a' b'. compute_num_races_run race_stats H = Inr a' \<and>
           compute_num_races_run race_stats (H @ [x]) = Inr b' \<and>
           num_races_run a' = int (length H) \<and>
           num_races_run b' = num_races_run a' + 1 \<and>
           num_races_run a' \<le> num_races_run b'))"
proof -
  let ?H = "dict_get horse_map (horse_id race) []"
  let ?hm' = "defaultdict_append horse_map (horse_id race) x"
  obtain a where a: "enrich_race horse_map jockey_map race = Inr a"
    using enrich_race_total by blast
  obtain b where b: "enrich_race ?hm' jockey_map race = Inr b"
    using enrich_race_total by blast
  have hb: "dict_get ?hm' (horse_id race) [] = ?H @ [x]"
    by (simp add: dict_get_append)
  have nb: "num_races_run b = int (length ?H) + 1"
    using enrich_race_horse_nonempty(1) [OF b hb] by simp
  have na: "num_races_run a = int (length ?H)"
  proof (cases "?H = []")
    case True
    with enrich_race_horse_empty [OF a True] show ?thesis by simp
  next
    case False
    from enrich_race_horse_nonempty(1) [OF a refl False] show ?thesis .
  qed
  have direct: "if H = [] then
        compute_num_races_run race_stats H = Inl ZeroDivisionError \<and>
        (\<exists>b'. compute_num_races_run race_stats (H @ [x]) = Inr b' \<and> num_races_run b' = 1)
      else
        (\<exists>a' b'. compute_num_races_run race_stats H = Inr a' \<and>
           compute_num_races_run race_stats (H @ [x]) = Inr b' \<and>
           num_races_run a' = int (length H) \<and>
           num_races_run b' = num_races_run a' + 1 \<and>
           num_races_run a' \<le> num_races_run b')"
    by (simp add: compute_num_races_run_nonempty compute_num_races_run_empty)
  from a b na nb direct show ?thesis by simp
qed

text \<open>
  C10. After the call, the caller's list is the input sorted by \<open>(date, race_index)\<close>
  ascending: it is sorted, it holds the same records (none is changed, added or lost),
  and records with equal keys keep their input order.
\<close>

theorem sort_in_place:
  "fst (compute_derived_variables all_races) = sort_races all_races \<and>
   sorted (map (\<lambda>r. (date r, race_index r)) (fst (compute_derived_variables all_races))) \<and>
   mset (fst (compute_derived_variables all_races)) = mset all_races \<and>
   filter (\<lambda>r. (date r, race_index r) = k) (fst (compute_derived_variables all_races))
     = filter (\<lambda>r. (date r, race_index r) = k) all_races"
proof -
  have f: "fst (compute_derived_variables all_races) = sort_races all_races"
    by (simp add: compute_derived_variables_def Let_def)
  have "filter (\<lambda>r. (date r, race_index r) = k) (sort_races all_races)
     = filter (\<lambda>r. (date r, race_index r) = k) all_races"
    unfolding sort_races_def by (rule sort_key_stable)
  then show ?thesis
    by (simp add: f sort_races_sorted sort_races_mset)
qed

end
